theory Spec2Isabelle
  imports Complex_Main "HOL-Library.AList"
begin

section \<open>Python values, exceptions and the environment\<close>

text \<open>
  The development embeds \<^verbatim>\<open>src/websocket/app.py\<close>: the class
  \<^verbatim>\<open>ConnectionManager\<close>, \<^verbatim>\<open>safe_send\<close> and \<^verbatim>\<open>ws_handler\<close>.

  A Python value is a JSON value (what \<^verbatim>\<open>json.loads\<close> returns and what the handler puts
  into its replies) or an opaque object, which \<^verbatim>\<open>json.dumps\<close> cannot serialise.  A
  dictionary is an association list in insertion order.  A \<^verbatim>\<open>str\<close> is the list of its
  characters; the emoji of the server's fixed texts are written as their UTF-8 bytes.
  A \<^verbatim>\<open>float\<close> is read as the real number it denotes.
\<close>

datatype pyval =
    PNone
  | PBool bool
  | PInt int
  | PFloat real
  | PStr string
  | PList "pyval list"
  | PDict "(string \<times> pyval) list"
  | PObject nat

text \<open>
  Exceptions, all of them subclasses of \<^verbatim>\<open>Exception\<close>.  \<open>JSONDecodeError\<close> carries
  \<^verbatim>\<open>str(e)\<close>; \<open>OtherException\<close> stands for whatever else a library raises (the
  transport's \<^verbatim>\<open>ConnectionClosed\<close>, a \<^verbatim>\<open>UnicodeDecodeError\<close> of \<^verbatim>\<open>json.loads\<close>, ...).
\<close>

datatype exn =
    JSONDecodeError string
  | AttributeError string
  | KeyError string
  | TypeError string
  | OtherException string

text \<open>
  What the handler does not define itself is a parameter: the successive readings of
  \<^verbatim>\<open>time.time()\<close>, the two functions of the \<^verbatim>\<open>json\<close> module, the text Python prints for
  a value that is not a string, and the behaviour of the peer on \<^verbatim>\<open>ws.send\<close> (the
  \<open>n\<close>-th call, with its text, either writes or raises with a message).
\<close>

record env =
  time_at :: "nat \<Rightarrow> real"
  json_loads :: "string \<Rightarrow> exn + pyval"
  json_dumps :: "pyval \<Rightarrow> exn + string"
  py_repr :: "pyval \<Rightarrow> string"
  send_fault :: "nat \<Rightarrow> string \<Rightarrow> string option"

section \<open>The state\<close>

text \<open>One entry of \<^verbatim>\<open>ConnectionManager.connections\<close>; \<open>ws\<close> is \<^verbatim>\<open>id(ws)\<close>.\<close>

record conn_info =
  ws :: nat
  connected_at :: real
  last_ping :: real
  message_count :: int

text \<open>
  The class \<^verbatim>\<open>ConnectionManager\<close>.  Its own attribute \<^verbatim>\<open>message_count\<close> (set to 0 by
  \<^verbatim>\<open>__init__\<close> and never used again) is named \<open>manager_message_count\<close> here, since
  the entries have a field of that name.
\<close>

record ConnectionManager =
  connections :: "(string \<times> conn_info) list"
  manager_message_count :: int

text \<open>
  The transport handle of one connection: its identity and the calls of \<^verbatim>\<open>ws.send\<close> so
  far, each with its text and whether the text was written.
\<close>

record websocket =
  ws_ident :: nat
  send_calls :: "(string \<times> bool) list"

text \<open>
  The state one run of \<^verbatim>\<open>ws_handler\<close> reads and writes: the global
  \<^verbatim>\<open>connection_manager\<close>, the number of readings of the clock so far, and the
  connection's own transport.  \<open>remove_calls\<close> is a ghost field: the arguments of the
  calls of \<^verbatim>\<open>remove_connection\<close>, in order.
\<close>

record world =
  connection_manager :: ConnectionManager
  clock_reads :: nat
  sock :: websocket
  remove_calls :: "string list"

section \<open>Computations that may raise\<close>

type_synonym 'a py = "world \<Rightarrow> (exn + 'a) \<times> world"

definition py_return :: "'a \<Rightarrow> 'a py" where
  "py_return x s = (Inr x, s)"

definition py_lift :: "exn + 'a \<Rightarrow> 'a py" where
  "py_lift r s = (r, s)"

definition py_bind :: "'a py \<Rightarrow> ('a \<Rightarrow> 'b py) \<Rightarrow> 'b py" where
  "py_bind m f s = (case m s of (Inl e, s') \<Rightarrow> (Inl e, s') | (Inr x, s') \<Rightarrow> f x s')"

text \<open>\<^verbatim>\<open>try: m  except Exception as e: h(e)\<close>\<close>

definition py_try :: "'a py \<Rightarrow> (exn \<Rightarrow> 'a py) \<Rightarrow> 'a py" where
  "py_try m h s = (case m s of (Inl e, s') \<Rightarrow> h e s' | (Inr x, s') \<Rightarrow> (Inr x, s'))"

section \<open>Library operations\<close>

text \<open>\<^verbatim>\<open>time.time()\<close>: the next reading of the clock.\<close>

definition time_time :: "env \<Rightarrow> real py" where
  "time_time E s = (Inr (time_at E (clock_reads s)), s\<lparr>clock_reads := Suc (clock_reads s)\<rparr>)"

text \<open>\<^verbatim>\<open>int(x)\<close> of a float truncates towards zero.\<close>

definition py_int :: "real \<Rightarrow> int" where
  "py_int x = (if 0 \<le> x then \<lfloor>x\<rfloor> else \<lceil>x\<rceil>)"

text \<open>The decimal text of an integer, as an f-string prints it.\<close>

fun digit_chars :: "nat \<Rightarrow> string" where
  "digit_chars n =
     (if n < 10 then [char_of (48 + n)]
      else digit_chars (n div 10) @ [char_of (48 + n mod 10)])"

declare digit_chars.simps [simp del]

definition str_int :: "int \<Rightarrow> string" where
  "str_int i = (if i < 0 then CHR ''-'' # digit_chars (nat (- i)) else digit_chars (nat i))"

text \<open>\<^verbatim>\<open>f"{v}"\<close>: a string prints as itself, any other value as Python prints it.\<close>

definition py_format :: "env \<Rightarrow> pyval \<Rightarrow> string" where
  "py_format E v = (case v of PStr t \<Rightarrow> t | _ \<Rightarrow> py_repr E v)"

text \<open>
  \<^verbatim>\<open>v.get(k, d)\<close>: only a dictionary has the method; on any other JSON value the
  attribute lookup raises \<^verbatim>\<open>AttributeError\<close>.
\<close>

definition dict_get :: "pyval \<Rightarrow> string \<Rightarrow> pyval \<Rightarrow> exn + pyval" where
  "dict_get v k d =
     (case v of
        PDict kvs \<Rightarrow> Inr (case map_of kvs k of Some x \<Rightarrow> x | None \<Rightarrow> d)
      | _ \<Rightarrow> Inl (AttributeError ''get''))"

text \<open>\<^verbatim>\<open>len(v)\<close>: defined on strings, lists and dictionaries, \<^verbatim>\<open>TypeError\<close> otherwise.\<close>

definition py_len :: "pyval \<Rightarrow> exn + int" where
  "py_len v =
     (case v of
        PStr t \<Rightarrow> Inr (int (length t))
      | PList xs \<Rightarrow> Inr (int (length xs))
      | PDict kvs \<Rightarrow> Inr (int (length (remdups (map fst kvs))))
      | _ \<Rightarrow> Inl (TypeError ''len''))"

text \<open>Truth value of a Python value, as \<^verbatim>\<open>if response:\<close> tests it.\<close>

definition truthy :: "pyval \<Rightarrow> bool" where
  "truthy v =
     (case v of
        PNone \<Rightarrow> False
      | PBool b \<Rightarrow> b
      | PInt i \<Rightarrow> i \<noteq> 0
      | PFloat x \<Rightarrow> x \<noteq> 0
      | PStr t \<Rightarrow> t \<noteq> []
      | PList xs \<Rightarrow> xs \<noteq> []
      | PDict kvs \<Rightarrow> kvs \<noteq> []
      | PObject _ \<Rightarrow> True)"

text \<open>
  \<^verbatim>\<open>ws.send(text)\<close>: the peer's behaviour decides whether this call, the \<open>n\<close>-th on the
  handle, writes the text or raises.  Either way the call is recorded.
\<close>

definition ws_send :: "env \<Rightarrow> string \<Rightarrow> unit py" where
  "ws_send E text s =
     (let w = sock s in
      case send_fault E (length (send_calls w)) text of
        None \<Rightarrow> (Inr (), s\<lparr>sock := w\<lparr>send_calls := send_calls w @ [(text, True)]\<rparr>\<rparr>)
      | Some e \<Rightarrow>
          (Inl (OtherException e), s\<lparr>sock := w\<lparr>send_calls := send_calls w @ [(text, False)]\<rparr>\<rparr>))"

text \<open>
  \<^verbatim>\<open>ws.receive()\<close> blocks until the peer does something: it returns a text, returns
  \<^verbatim>\<open>None\<close> when the peer has closed, or raises.
\<close>

datatype recv = Message string | Eof | RecvRaises string

section \<open>ConnectionManager\<close>

definition add_connection :: "env \<Rightarrow> nat \<Rightarrow> string \<Rightarrow> unit py" where
  "add_connection E w connection_id =
     py_bind (time_time E) (\<lambda>t1.
     py_bind (time_time E) (\<lambda>t2.
     (\<lambda>s.
        let m = connection_manager s;
            info = \<lparr>ws = w, connected_at = t1, last_ping = t2, message_count = 0\<rparr>
        in (Inr (),
            s\<lparr>connection_manager :=
                m\<lparr>connections := AList.update connection_id info (connections m)\<rparr>\<rparr>))))"

definition remove_connection :: "env \<Rightarrow> string \<Rightarrow> world \<Rightarrow> world" where
  "remove_connection E connection_id s =
     (let s0 = s\<lparr>remove_calls := remove_calls s @ [connection_id]\<rparr> in
      case map_of (connections (connection_manager s0)) connection_id of
        None \<Rightarrow> s0
      | Some conn_info \<Rightarrow>
          (let s1 = snd (time_time E s0); m = connection_manager s1
           in s1\<lparr>connection_manager :=
                   m\<lparr>connections := AList.delete connection_id (connections m)\<rparr>\<rparr>))"

text \<open>
  \<^verbatim>\<open>get_connection_info\<close>: the length of the dictionary, then one entry per connection
  with the three public fields (never the handle); each entry reads the clock once.
\<close>

record public_info =
  info_connected_at :: real
  info_duration :: real
  info_message_count :: int

record connection_info =
  total_connections :: nat
  connections_info :: "(string \<times> public_info) list"

primrec info_items :: "env \<Rightarrow> nat \<Rightarrow> (string \<times> conn_info) list \<Rightarrow> (string \<times> public_info) list" where
  "info_items E n [] = []"
| "info_items E n (p # ps) =
     (fst p,
      \<lparr>info_connected_at = connected_at (snd p),
       info_duration = time_at E n - connected_at (snd p),
       info_message_count = message_count (snd p)\<rparr>) # info_items E (Suc n) ps"

definition get_connection_info :: "env \<Rightarrow> world \<Rightarrow> connection_info \<times> world" where
  "get_connection_info E s =
     (let cs = connections (connection_manager s) in
      (\<lparr>total_connections = length cs,
        connections_info = info_items E (clock_reads s) cs\<rparr>,
       s\<lparr>clock_reads := clock_reads s + length cs\<rparr>))"

section \<open>safe\_send\<close>

definition safe_send :: "env \<Rightarrow> pyval \<Rightarrow> string \<Rightarrow> bool py" where
  "safe_send E message connection_id =
     py_try
       (py_bind (py_lift (json_dumps E message)) (\<lambda>text.
        py_bind (ws_send E text) (\<lambda>_.
        py_return True)))
       (\<lambda>e. py_return False)"

section \<open>ws\_handler\<close>

text \<open>The fixed texts of the replies; each begins with an emoji, given by its UTF-8 bytes.\<close>

definition welcome_text :: string where
  "welcome_text = [CHR 0xF0, CHR 0x9F, CHR 0xA4, CHR 0x96] @ '' Test connection successful!''"

definition test_text :: string where
  "test_text = [CHR 0xE2, CHR 0x9C, CHR 0x85] @ '' Test successful!''"

definition audio_text :: "int \<Rightarrow> string" where
  "audio_text audio_size =
     [CHR 0xF0, CHR 0x9F, CHR 0x8E, CHR 0xB5] @ '' Audio chunk received ('' @ str_int audio_size
       @ '' bytes)''"

definition echo_text :: "env \<Rightarrow> pyval \<Rightarrow> string" where
  "echo_text E msg_type = [CHR 0xF0, CHR 0x9F, CHR 0x93, CHR 0xA1] @ '' Echo: '' @ py_format E msg_type"

text \<open>Line 80: \<^verbatim>\<open>f"conn_{int(time.time() * 1000)}_{id(ws) % 10000}"\<close>.\<close>

definition make_connection_id :: "real \<Rightarrow> nat \<Rightarrow> string" where
  "make_connection_id t w =
     ''conn_'' @ str_int (py_int (t * 1000)) @ ''_'' @ str_int (int (w mod 10000))"

text \<open>\<^verbatim>\<open>connection_manager.connections[connection_id]\<close>: \<^verbatim>\<open>KeyError\<close> when absent.\<close>

definition conn_lookup :: "string \<Rightarrow> conn_info py" where
  "conn_lookup connection_id s =
     (case map_of (connections (connection_manager s)) connection_id of
        None \<Rightarrow> (Inl (KeyError connection_id), s)
      | Some info \<Rightarrow> (Inr info, s))"

text \<open>
  Lines 112 to 114: count the message and stamp the entry, when the entry is there.
\<close>

definition update_stats :: "env \<Rightarrow> string \<Rightarrow> world \<Rightarrow> world" where
  "update_stats E connection_id s =
     (let m = connection_manager s in
      case map_of (connections m) connection_id of
        None \<Rightarrow> s
      | Some info \<Rightarrow>
          (let counted = info\<lparr>message_count := message_count info + 1\<rparr>;
               stamped = counted\<lparr>last_ping := time_at E (clock_reads s)\<rparr>
           in s\<lparr>connection_manager :=
                   m\<lparr>connections := AList.update connection_id stamped (connections m)\<rparr>,
                 clock_reads := Suc (clock_reads s)\<rparr>))"

text \<open>
  Lines 119 to 174: the reply to a decoded message.  The operands are evaluated in the
  order of the source, so a lookup that raises does so after the clock readings that
  precede it.
\<close>

definition ws_handler_dispatch :: "env \<Rightarrow> string \<Rightarrow> pyval \<Rightarrow> pyval py" where
  "ws_handler_dispatch E connection_id message =
     py_bind (py_lift (dict_get message ''type'' (PStr ''unknown''))) (\<lambda>msg_type.
     if msg_type = PStr ''ping'' then
       py_bind (time_time E) (\<lambda>t1.
       py_bind (py_lift (dict_get message ''timestamp'' PNone)) (\<lambda>original.
       py_bind (time_time E) (\<lambda>t2.
       py_bind (conn_lookup connection_id) (\<lambda>info.
       py_return (PDict
         [(''type'', PStr ''pong''),
          (''timestamp'', PInt (py_int t1)),
          (''original_timestamp'', original),
          (''server_connection_time'', PFloat (t2 - connected_at info))])))))
     else if msg_type = PStr ''test'' then
       py_bind (py_lift (dict_get message ''data'' (PStr []))) (\<lambda>echo_data.
       py_bind (time_time E) (\<lambda>t1.
       py_bind (conn_lookup connection_id) (\<lambda>info1.
       py_bind (time_time E) (\<lambda>t2.
       py_bind (conn_lookup connection_id) (\<lambda>info2.
       py_return (PDict
         [(''type'', PStr ''test_response''),
          (''message'', PStr test_text),
          (''echo_data'', echo_data),
          (''server_time'', PInt (py_int t1)),
          (''connection_stats'', PDict
             [(''id'', PStr connection_id),
              (''messages_received'', PInt (message_count info1)),
              (''uptime'', PFloat (t2 - connected_at info2))])]))))))
     else if msg_type = PStr ''heartbeat'' then
       py_bind (time_time E) (\<lambda>t1.
       py_bind (time_time E) (\<lambda>t2.
       py_bind (conn_lookup connection_id) (\<lambda>info.
       py_return (PDict
         [(''type'', PStr ''heartbeat_ack''),
          (''timestamp'', PInt (py_int t1)),
          (''connection_uptime'', PFloat (t2 - connected_at info))]))))
     else if msg_type = PStr ''audio_stream'' then
       py_bind (py_lift (dict_get message ''data'' (PStr []))) (\<lambda>data.
       py_bind (py_lift (py_len data)) (\<lambda>audio_size.
       py_bind (time_time E) (\<lambda>t1.
       py_return (PDict
         [(''type'', PStr ''audio_received''),
          (''message'', PStr (audio_text audio_size)),
          (''size'', PInt audio_size),
          (''timestamp'', PInt (py_int t1))]))))
     else
       py_bind (time_time E) (\<lambda>t1.
       py_return (PDict
         [(''type'', PStr ''echo''),
          (''original_type'', msg_type),
          (''message'', PStr (echo_text E msg_type)),
          (''original_message'', message),
          (''timestamp'', PInt (py_int t1))])))"

text \<open>The two error replies of lines 192 to 197 and 205 to 209.\<close>

definition invalid_json_response :: "string \<Rightarrow> real \<Rightarrow> pyval" where
  "invalid_json_response err t =
     PDict [(''type'', PStr ''error''),
            (''message'', PStr ''Invalid JSON format''),
            (''error'', PStr err),
            (''timestamp'', PInt (py_int t))]"

definition processing_error_response :: "real \<Rightarrow> pyval" where
  "processing_error_response t =
     PDict [(''type'', PStr ''error''),
            (''message'', PStr ''Server processing error''),
            (''timestamp'', PInt (py_int t))]"

text \<open>
  Lines 117 to 211: decode, dispatch and reply, with the two handlers.  The result is
  whether the loop is left by \<^verbatim>\<open>break\<close>.
\<close>

definition ws_handler_message :: "env \<Rightarrow> string \<Rightarrow> string \<Rightarrow> bool py" where
  "ws_handler_message E connection_id raw_message =
     py_try
       (py_bind (py_lift (json_loads E raw_message)) (\<lambda>message.
        py_bind (ws_handler_dispatch E connection_id message) (\<lambda>response.
        if truthy response then
          py_bind (safe_send E response connection_id) (\<lambda>sent. py_return (\<not> sent))
        else py_return False)))
       (\<lambda>e. case e of
          JSONDecodeError err \<Rightarrow>
            py_bind (time_time E) (\<lambda>t.
            py_bind (safe_send E (invalid_json_response err t) connection_id) (\<lambda>sent.
            py_return (\<not> sent)))
        | _ \<Rightarrow>
            py_bind (time_time E) (\<lambda>t.
            py_bind (safe_send E (processing_error_response t) connection_id) (\<lambda>sent.
            py_return (\<not> sent))))"

text \<open>
  Lines 102 to 220, over the successive results of \<^verbatim>\<open>ws.receive()\<close>.  When they are
  used up the handler is blocked in \<^verbatim>\<open>ws.receive()\<close> and has not returned: \<open>Waiting\<close>.
  Otherwise the loop is left (\<open>Left\<close>) and the results not consumed are returned with
  it.  An exception that escapes the handlers of one message is caught at line 213
  and leaves the loop, as one raised by \<^verbatim>\<open>ws.receive()\<close> does.
\<close>

datatype progress = Waiting | Left

fun ws_handler_loop :: "env \<Rightarrow> string \<Rightarrow> recv list \<Rightarrow> world \<Rightarrow> (progress \<times> recv list) \<times> world" where
  "ws_handler_loop E connection_id [] s = ((Waiting, []), s)"
| "ws_handler_loop E connection_id (Eof # rest) s = ((Left, rest), s)"
| "ws_handler_loop E connection_id (RecvRaises e # rest) s = ((Left, rest), s)"
| "ws_handler_loop E connection_id (Message raw_message # rest) s =
     (case ws_handler_message E connection_id raw_message (update_stats E connection_id s) of
        (Inr False, s') \<Rightarrow> ws_handler_loop E connection_id rest s'
      | (Inr True, s') \<Rightarrow> ((Left, rest), s')
      | (Inl e, s') \<Rightarrow> ((Left, rest), s'))"

text \<open>Lines 88 to 93.\<close>

definition welcome_msg :: "string \<Rightarrow> real \<Rightarrow> pyval" where
  "welcome_msg connection_id t =
     PDict [(''type'', PStr ''system_ready''),
            (''message'', PStr welcome_text),
            (''connection_id'', PStr connection_id),
            (''server_time'', PInt (py_int t))]"

text \<open>Lines 84 to 99: register and welcome.  The result is whether the welcome was sent.\<close>

definition ws_handler_register :: "env \<Rightarrow> string \<Rightarrow> bool py" where
  "ws_handler_register E connection_id =
     py_bind (\<lambda>s. add_connection E (ws_ident (sock s)) connection_id s) (\<lambda>_.
     py_bind (time_time E) (\<lambda>t.
     safe_send E (welcome_msg connection_id t) connection_id))"

text \<open>
  Lines 84 to 220, the body of the outer \<^verbatim>\<open>try\<close>: register, welcome, loop.  A welcome
  that cannot be sent returns at once, with nothing received.
\<close>

definition ws_handler_try :: "env \<Rightarrow> string \<Rightarrow> recv list \<Rightarrow> (progress \<times> recv list) py" where
  "ws_handler_try E connection_id received =
     py_bind (ws_handler_register E connection_id) (\<lambda>sent.
     if \<not> sent then py_return (Left, received)
     else (\<lambda>s. case ws_handler_loop E connection_id received s of (r, s') \<Rightarrow> (Inr r, s')))"

text \<open>
  The identifier of the connection a run of \<^verbatim>\<open>ws_handler\<close> serves, from the first
  reading of the clock and the handle.
\<close>

definition handler_connection_id :: "env \<Rightarrow> world \<Rightarrow> string" where
  "handler_connection_id E s = make_connection_id (time_at E (clock_reads s)) (ws_ident (sock s))"

text \<open>
  \<^verbatim>\<open>ws_handler\<close>: the \<^verbatim>\<open>try\<close>, the \<^verbatim>\<open>except Exception\<close> of line 222 (which only logs)
  and the \<^verbatim>\<open>finally\<close> of line 226.  While the handler waits in \<^verbatim>\<open>ws.receive()\<close> the
  \<^verbatim>\<open>finally\<close> has not run; on every other path it runs once.
\<close>

definition ws_handler :: "env \<Rightarrow> recv list \<Rightarrow> world \<Rightarrow> progress \<times> world" where
  "ws_handler E received s =
     (let connection_id = handler_connection_id E s;
          s0 = snd (time_time E s)
      in case ws_handler_try E connection_id received s0 of
           (Inr (Waiting, rest), s') \<Rightarrow> (Waiting, s')
         | (Inr (Left, rest), s') \<Rightarrow> (Left, remove_connection E connection_id s')
         | (Inl e, s') \<Rightarrow> (Left, remove_connection E connection_id s'))"

section \<open>Auxiliary notions and example inputs\<close>

text \<open>
  A computation leaves the registry alone when it changes neither the connection
  manager nor the record of the calls of \<^verbatim>\<open>remove_connection\<close>.
\<close>

definition frame :: "'a py \<Rightarrow> bool" where
  "frame m = (\<forall>s. connection_manager (snd (m s)) = connection_manager s \<and>
                   remove_calls (snd (m s)) = remove_calls s)"

text \<open>The number of texts among some results of \<^verbatim>\<open>ws.receive()\<close>.\<close>

definition is_message :: "recv \<Rightarrow> bool" where
  "is_message ev = (case ev of Message raw \<Rightarrow> True | _ \<Rightarrow> False)"

definition received_messages :: "recv list \<Rightarrow> nat" where
  "received_messages evs = length (filter is_message evs)"

text \<open>
  Example inputs.  The decoder knows a handful of texts; the serialiser is a stand-in
  that writes the value of the \<open>type\<close> field only and refuses an opaque object; the
  clock advances by one second per reading; the peer accepts every write.
\<close>

definition example_invalid_text :: string where
  "example_invalid_text = ''not-json''"

definition example_ping_text :: string where
  \<open>example_ping_text = ''{"type":"ping","timestamp":7}''\<close>

definition example_test_text :: string where
  \<open>example_test_text = ''{"type":"test","data":"abc"}''\<close>

definition example_heartbeat_text :: string where
  \<open>example_heartbeat_text = ''{"type":"heartbeat"}''\<close>

definition example_audio_text :: string where
  \<open>example_audio_text = ''{"type":"audio_stream"}''\<close>

definition example_list_text :: string where
  "example_list_text = ''[1]''"

definition example_loads :: "string \<Rightarrow> exn + pyval" where
  "example_loads raw =
     (if raw = example_ping_text then
        Inr (PDict [(''type'', PStr ''ping''), (''timestamp'', PInt 7)])
      else if raw = example_test_text then
        Inr (PDict [(''type'', PStr ''test''), (''data'', PStr ''abc'')])
      else if raw = example_heartbeat_text then
        Inr (PDict [(''type'', PStr ''heartbeat'')])
      else if raw = example_audio_text then
        Inr (PDict [(''type'', PStr ''audio_stream'')])
      else if raw = example_list_text then Inr (PList [PInt 1])
      else Inl (JSONDecodeError ''Expecting value: line 1 column 1 (char 0)''))"

definition example_dumps :: "pyval \<Rightarrow> exn + string" where
  "example_dumps v =
     (case v of
        PDict kvs \<Rightarrow> (case map_of kvs ''type'' of Some (PStr t) \<Rightarrow> Inr t | _ \<Rightarrow> Inr ''{}'')
      | PObject n \<Rightarrow> Inl (TypeError ''Object is not JSON serializable'')
      | _ \<Rightarrow> Inr ''value'')"

definition example_env :: env where
  "example_env =
     \<lparr>time_at = (\<lambda>n. 100 + real n), json_loads = example_loads, json_dumps = example_dumps,
      py_repr = (\<lambda>v. ''repr''), send_fault = (\<lambda>n text. None)\<rparr>"

definition example_world :: world where
  "example_world =
     \<lparr>connection_manager = \<lparr>connections = [], manager_message_count = 0\<rparr>,
      clock_reads = 0,
      sock = \<lparr>ws_ident = 4242, send_calls = []\<rparr>,
      remove_calls = []\<rparr>"

text \<open>A world in which the connection \<open>c1\<close> is registered and has received two messages.\<close>

definition example_registered :: world where
  "example_registered =
     \<lparr>connection_manager =
        \<lparr>connections =
           [(''c1'', \<lparr>ws = 4242, connected_at = 100, last_ping = 105, message_count = 2\<rparr>)],
         manager_message_count = 0\<rparr>,
      clock_reads = 8,
      sock = \<lparr>ws_ident = 4242, send_calls = []\<rparr>,
      remove_calls = []\<rparr>"

section \<open>Basic facts\<close>

lemma safe_send_eq:
  "safe_send E message cid s =
     (case json_dumps E message of
        Inl e \<Rightarrow> (Inr False, s)
      | Inr text \<Rightarrow>
          (Inr (send_fault E (length (send_calls (sock s))) text = None),
           s\<lparr>sock := (sock s)\<lparr>send_calls := send_calls (sock s) @
               [(text, send_fault E (length (send_calls (sock s))) text = None)]\<rparr>\<rparr>))"
  by (simp add: safe_send_def py_try_def py_bind_def py_lift_def py_return_def ws_send_def Let_def
      split: sum.splits option.splits)

lemma safe_send_returns: "\<exists>sent s'. safe_send E message cid s = (Inr sent, s')"
  by (cases "json_dumps E message") (auto simp add: safe_send_eq)

lemma frame_return: "frame (py_return x)"
  by (simp add: frame_def py_return_def)

lemma frame_lift: "frame (py_lift r)"
  by (simp add: frame_def py_lift_def)

lemma frame_time: "frame (time_time E)"
  by (simp add: frame_def time_time_def)

lemma frame_lookup: "frame (conn_lookup cid)"
  by (simp add: frame_def conn_lookup_def split: option.splits)

lemma frame_bind:
  assumes "frame m" and "\<And>x. frame (f x)"
  shows "frame (py_bind m f)"
proof (unfold frame_def, intro allI)
  fix s
  obtain r s1 where ms: "m s = (r, s1)" by (cases "m s")
  from assms(1) have "connection_manager (snd (m s)) = connection_manager s \<and>
      remove_calls (snd (m s)) = remove_calls s"
    unfolding frame_def by blast
  with ms have keep: "connection_manager s1 = connection_manager s \<and> remove_calls s1 = remove_calls s"
    by simp
  show "connection_manager (snd (py_bind m f s)) = connection_manager s \<and>
      remove_calls (snd (py_bind m f s)) = remove_calls s"
  proof (cases r)
    case (Inl e)
    with ms keep show ?thesis by (simp add: py_bind_def)
  next
    case (Inr x)
    from assms(2) [of x] have "connection_manager (snd (f x s1)) = connection_manager s1 \<and>
        remove_calls (snd (f x s1)) = remove_calls s1"
      unfolding frame_def by blast
    with ms keep Inr show ?thesis by (simp add: py_bind_def)
  qed
qed

lemma frame_try:
  assumes "frame m" and "\<And>e. frame (h e)"
  shows "frame (py_try m h)"
proof (unfold frame_def, intro allI)
  fix s
  obtain r s1 where ms: "m s = (r, s1)" by (cases "m s")
  from assms(1) have "connection_manager (snd (m s)) = connection_manager s \<and>
      remove_calls (snd (m s)) = remove_calls s"
    unfolding frame_def by blast
  with ms have keep: "connection_manager s1 = connection_manager s \<and> remove_calls s1 = remove_calls s"
    by simp
  show "connection_manager (snd (py_try m h s)) = connection_manager s \<and>
      remove_calls (snd (py_try m h s)) = remove_calls s"
  proof (cases r)
    case (Inr x)
    with ms keep show ?thesis by (simp add: py_try_def)
  next
    case (Inl e)
    from assms(2) [of e] have "connection_manager (snd (h e s1)) = connection_manager s1 \<and>
        remove_calls (snd (h e s1)) = remove_calls s1"
      unfolding frame_def by blast
    with ms keep Inl show ?thesis by (simp add: py_try_def)
  qed
qed

lemma frame_safe_send: "frame (safe_send E message cid)"
  by (simp add: frame_def safe_send_eq split: sum.splits)

lemma frame_dispatch: "frame (ws_handler_dispatch E cid message)"
  unfolding ws_handler_dispatch_def
  by (simp add: frame_bind frame_lift frame_time frame_lookup frame_return)

lemma frame_message: "frame (ws_handler_message E cid raw)"
  unfolding ws_handler_message_def
  by (rule frame_try)
     (simp_all add: frame_bind frame_lift frame_time frame_dispatch frame_safe_send
        frame_return split: exn.split)


lemma add_connection_eq:
  "add_connection E w cid s =
     (Inr (),
      s\<lparr>clock_reads := Suc (Suc (clock_reads s)),
        connection_manager := (connection_manager s)\<lparr>connections :=
          AList.update cid
            \<lparr>ws = w, connected_at = time_at E (clock_reads s),
             last_ping = time_at E (Suc (clock_reads s)), message_count = 0\<rparr>
            (connections (connection_manager s))\<rparr>\<rparr>)"
  by (simp add: add_connection_def py_bind_def time_time_def Let_def)

lemma update_stats_remove_calls: "remove_calls (update_stats E cid s) = remove_calls s"
  by (simp add: update_stats_def Let_def split: option.split)

lemma message_remove_calls:
  "ws_handler_message E cid raw s = (r, s') \<Longrightarrow> remove_calls s' = remove_calls s"
  using frame_message [of E cid raw] unfolding frame_def by (metis snd_conv)

lemma message_manager:
  "ws_handler_message E cid raw s = (r, s') \<Longrightarrow> connection_manager s' = connection_manager s"
  using frame_message [of E cid raw] unfolding frame_def by (metis snd_conv)

lemma loop_remove_calls:
  "remove_calls (snd (ws_handler_loop E cid evs s)) = remove_calls s"
proof (induction evs arbitrary: s)
  case Nil
  show ?case by simp
next
  case (Cons ev evs)
  show ?case
  proof (cases ev)
    case (Message raw)
    obtain r s' where m: "ws_handler_message E cid raw (update_stats E cid s) = (r, s')"
      by (cases "ws_handler_message E cid raw (update_stats E cid s)")
    from message_remove_calls [OF m] have k: "remove_calls s' = remove_calls s"
      by (simp add: update_stats_remove_calls)
    show ?thesis
      using Message m k Cons.IH [of s'] by (simp split: sum.split bool.split)
  qed simp_all
qed

lemma register_result:
  "\<exists>sent s'. ws_handler_register E cid s = (Inr sent, s') \<and>
     remove_calls s' = remove_calls s \<and>
     connection_manager s' = (connection_manager s)\<lparr>connections :=
       AList.update cid
         \<lparr>ws = ws_ident (sock s), connected_at = time_at E (clock_reads s),
          last_ping = time_at E (Suc (clock_reads s)), message_count = 0\<rparr>
         (connections (connection_manager s))\<rparr>"
  by (cases "json_dumps E (welcome_msg cid (time_at E (Suc (Suc (clock_reads s)))))")
     (auto simp add: ws_handler_register_def py_bind_def add_connection_eq time_time_def
        safe_send_eq)

lemma update_stats_present:
  assumes "map_of (connections (connection_manager s)) cid = Some info"
  shows "\<exists>info'. map_of (connections (connection_manager (update_stats E cid s))) cid = Some info'
           \<and> message_count info' = message_count info + 1"
  using assms by (simp add: update_stats_def Let_def update_conv')

lemma loop_count:
  assumes "map_of (connections (connection_manager s)) cid = Some info"
      and "ws_handler_loop E cid evs s = ((p, rest), s')"
  shows "length rest \<le> length evs \<and>
         (\<exists>info'. map_of (connections (connection_manager s')) cid = Some info' \<and>
            message_count info' =
              message_count info + int (received_messages (take (length evs - length rest) evs)))"
  using assms
proof (induction evs arbitrary: s info)
  case Nil
  then show ?case by (simp add: received_messages_def)
next
  case (Cons ev evs)
  show ?case
  proof (cases ev)
    case Eof
    with Cons.prems show ?thesis by (auto simp add: received_messages_def is_message_def)
  next
    case (RecvRaises e)
    with Cons.prems show ?thesis by (auto simp add: received_messages_def is_message_def)
  next
    case (Message raw)
    obtain r s2 where m: "ws_handler_message E cid raw (update_stats E cid s) = (r, s2)"
      by (cases "ws_handler_message E cid raw (update_stats E cid s)")
    from update_stats_present [OF Cons.prems(1)] obtain info1 where
      i1: "map_of (connections (connection_manager (update_stats E cid s))) cid = Some info1"
      and c1: "message_count info1 = message_count info + 1" by blast
    from message_manager [OF m] i1 have i2: "map_of (connections (connection_manager s2)) cid = Some info1"
      by simp
    have one: "received_messages [Message raw] = 1"
      by (simp add: received_messages_def is_message_def)
    show ?thesis
    proof (cases "r = Inr False")
      case True
      with Cons.prems(2) Message m have l: "ws_handler_loop E cid evs s2 = ((p, rest), s')"
        by simp
      from Cons.IH [OF i2 l] obtain info' where le: "length rest \<le> length evs"
        and i': "map_of (connections (connection_manager s')) cid = Some info'"
        and c': "message_count info' =
          message_count info1 + int (received_messages (take (length evs - length rest) evs))"
        by blast
      from le have t: "take (length (ev # evs) - length rest) (ev # evs) =
          ev # take (length evs - length rest) evs"
        by (simp add: Suc_diff_le)
      have "received_messages (ev # take (length evs - length rest) evs) =
          Suc (received_messages (take (length evs - length rest) evs))"
        using Message by (simp add: received_messages_def is_message_def)
      with le i' c' c1 t show ?thesis by simp
    next
      case False
      with Cons.prems(2) Message m have "rest = evs \<and> s' = s2"
        by (auto split: sum.splits bool.splits)
      with i2 c1 Message show ?thesis
        by (simp add: received_messages_def is_message_def)
    qed
  qed
qed

lemmas run_defs =
  ws_handler_def ws_handler_try_def ws_handler_register_def ws_handler_message_def
  ws_handler_dispatch_def remove_connection_def
  add_connection_eq safe_send_eq update_stats_def conn_lookup_def time_time_def
  py_bind_def py_try_def py_lift_def py_return_def dict_get_def py_len_def truthy_def py_int_def
  invalid_json_response_def processing_error_response_def welcome_msg_def
  example_env_def example_loads_def example_dumps_def example_world_def
  example_registered_def example_invalid_text_def example_ping_text_def example_test_text_def
  example_heartbeat_text_def example_audio_text_def example_list_text_def Let_def

lemma remove_connection_calls:
  "remove_calls (remove_connection E cid s) = remove_calls s @ [cid]"
  by (simp add: remove_connection_def Let_def time_time_def split: option.split)

lemma remove_connection_absent:
  "cid \<notin> fst ` set (connections (connection_manager (remove_connection E cid s)))"
proof (cases "map_of (connections (connection_manager s)) cid")
  case None
  then have "cid \<notin> fst ` set (connections (connection_manager s))"
    by (simp add: map_of_eq_None_iff)
  with None show ?thesis by (simp add: remove_connection_def Let_def)
next
  case (Some info)
  then show ?thesis
    by (simp add: remove_connection_def Let_def time_time_def delete_notin_dom)
qed

lemma info_items_keys: "map fst (info_items E n cs) = map fst cs"
  by (induction cs arbitrary: n) simp_all

lemma snapshot_keys:
  "fst ` set (connections_info (fst (get_connection_info E s))) =
   fst ` set (connections (connection_manager s))"
proof -
  have "set (map fst (info_items E (clock_reads s) (connections (connection_manager s)))) =
      set (map fst (connections (connection_manager s)))"
    by (simp only: info_items_keys)
  then show ?thesis by (simp add: get_connection_info_def Let_def)
qed

lemma try_remove_calls:
  "remove_calls (snd (ws_handler_try E cid evs s)) = remove_calls s"
proof -
  from register_result [of E cid s] obtain sent s1 where
    reg: "ws_handler_register E cid s = (Inr sent, s1)" and k: "remove_calls s1 = remove_calls s"
    by blast
  show ?thesis
  proof (cases sent)
    case False
    with reg k show ?thesis by (simp add: ws_handler_try_def py_bind_def py_return_def)
  next
    case True
    obtain r s2 where l: "ws_handler_loop E cid evs s1 = (r, s2)"
      by (cases "ws_handler_loop E cid evs s1")
    with loop_remove_calls [of E cid evs s1] k have "remove_calls s2 = remove_calls s"
      by simp
    with True reg l show ?thesis by (simp add: ws_handler_try_def py_bind_def)
  qed
qed

lemmas msg_defs =
  ws_handler_message_def py_try_def py_bind_def py_lift_def py_return_def time_time_def

lemma message_after_dispatch:
  assumes "json_loads E raw = Inr message"
      and "ws_handler_dispatch E cid message u = (Inr resp, u')"
      and "truthy resp"
      and "safe_send E resp cid u' = (Inr sent, s')"
  shows "ws_handler_message E cid raw u = (Inr (\<not> sent), s')"
  using assms by (simp add: msg_defs)

lemma message_after_raise:
  assumes "json_loads E raw = Inr message"
      and "ws_handler_dispatch E cid message u = (Inl e, u')"
      and "\<forall>err. e \<noteq> JSONDecodeError err"
      and "safe_send E (processing_error_response (time_at E (clock_reads u'))) cid
             (snd (time_time E u')) = (Inr sent, s')"
  shows "ws_handler_message E cid raw u = (Inr (\<not> sent), s')"
  using assms by (cases e) (simp_all add: msg_defs)

lemma loop_step:
  assumes "ws_handler_message E cid raw (update_stats E cid s) = (Inr (\<not> sent), s')"
  shows "ws_handler_loop E cid (Message raw # rest) s =
           (if sent then ws_handler_loop E cid rest s' else ((Left, rest), s'))"
  using assms by simp

lemmas dispatch_defs =
  ws_handler_dispatch_def py_bind_def py_lift_def py_return_def time_time_def conn_lookup_def
  dict_get_def

lemma test_reply_general:
  assumes "json_loads E raw = Inr (PDict kvs)"
      and "map_of kvs ''type'' = Some (PStr ''test'')"
      and "map_of (connections (connection_manager s)) cid = Some info"
  shows "\<exists>resp stats u' sent s'.
     ws_handler_dispatch E cid (PDict kvs) (update_stats E cid s) = (Inr resp, u') \<and>
     dict_get resp ''type'' PNone = Inr (PStr ''test_response'') \<and>
     dict_get resp ''echo_data'' PNone =
       Inr (case map_of kvs ''data'' of Some d \<Rightarrow> d | None \<Rightarrow> PStr []) \<and>
     dict_get resp ''connection_stats'' PNone = Inr stats \<and>
     dict_get stats ''messages_received'' PNone = Inr (PInt (message_count info + 1)) \<and>
     safe_send E resp cid u' = (Inr sent, s') \<and>
     ws_handler_loop E cid (Message raw # rest) s =
       (if sent then ws_handler_loop E cid rest s' else ((Left, rest), s'))"
proof -
  let ?u = "update_stats E cid s"
  from update_stats_present [OF assms(3)] obtain info1 where
    i1: "map_of (connections (connection_manager ?u)) cid = Some info1"
    and c1: "message_count info1 = message_count info + 1" by blast
  let ?stats = "PDict
             [(''id'', PStr cid),
              (''messages_received'', PInt (message_count info1)),
              (''uptime'', PFloat (time_at E (Suc (clock_reads ?u)) - connected_at info1))]"
  let ?resp = "PDict
         [(''type'', PStr ''test_response''),
          (''message'', PStr test_text),
          (''echo_data'', case map_of kvs ''data'' of Some d \<Rightarrow> d | None \<Rightarrow> PStr []),
          (''server_time'', PInt (py_int (time_at E (clock_reads ?u)))),
          (''connection_stats'', ?stats)]"
  let ?u' = "?u\<lparr>clock_reads := Suc (Suc (clock_reads ?u))\<rparr>"
  from assms(2) i1 have d: "ws_handler_dispatch E cid (PDict kvs) ?u = (Inr ?resp, ?u')"
    by (simp add: dispatch_defs)
  from safe_send_returns obtain sent s' where snd: "safe_send E ?resp cid ?u' = (Inr sent, s')"
    by blast
  have tr: "truthy ?resp" by (simp add: truthy_def)
  from message_after_dispatch [OF assms(1) d tr snd]
  have m: "ws_handler_message E cid raw ?u = (Inr (\<not> sent), s')" .
  have "dict_get ?resp ''type'' PNone = Inr (PStr ''test_response'')"
    and "dict_get ?resp ''echo_data'' PNone =
       Inr (case map_of kvs ''data'' of Some d \<Rightarrow> d | None \<Rightarrow> PStr [])"
    and "dict_get ?resp ''connection_stats'' PNone = Inr ?stats"
    and "dict_get ?stats ''messages_received'' PNone = Inr (PInt (message_count info + 1))"
    by (simp_all add: dict_get_def c1)
  with d snd loop_step [OF m] show ?thesis by blast
qed

section \<open>The claims\<close>

text \<open>
  C1.  Whenever \<^verbatim>\<open>ws_handler\<close> returns (the peer closed, \<^verbatim>\<open>ws.receive()\<close> raised, a reply
  or the welcome could not be sent, or an exception reached the outer handler), it has
  called \<^verbatim>\<open>remove_connection\<close> with its connection id exactly once, and the id is in
  neither the registry nor the snapshot \<^verbatim>\<open>get_connection_info\<close> returns.
\<close>

theorem handler_cleanup_once:
  assumes "ws_handler E received s = (Left, s')"
  shows "remove_calls s' = remove_calls s @ [handler_connection_id E s] \<and>
         handler_connection_id E s \<notin> fst ` set (connections (connection_manager s')) \<and>
         handler_connection_id E s \<notin> fst ` set (connections_info (fst (get_connection_info E s')))"
proof -
  let ?cid = "handler_connection_id E s"
  let ?s0 = "snd (time_time E s)"
  obtain r s1 where t: "ws_handler_try E ?cid received ?s0 = (r, s1)"
    by (cases "ws_handler_try E ?cid received ?s0")
  from try_remove_calls [of E ?cid received ?s0] t have k: "remove_calls s1 = remove_calls s"
    by (simp add: time_time_def)
  from assms t have s': "s' = remove_connection E ?cid s1"
    by (auto simp add: ws_handler_def Let_def split: sum.splits progress.splits)
  from s' k have "remove_calls s' = remove_calls s @ [?cid]"
    by (simp add: remove_connection_calls)
  moreover from s' have "?cid \<notin> fst ` set (connections (connection_manager s'))"
    by (simp add: remove_connection_absent)
  ultimately show ?thesis by (simp add: snapshot_keys)
qed

theorem handler_cleanup_once_witness:
  "fst (ws_handler example_env [Message example_invalid_text, Eof] example_world) = Left \<and>
   remove_calls (snd (ws_handler example_env [Message example_invalid_text, Eof] example_world)) =
     [handler_connection_id example_env example_world] \<and>
   connections (connection_manager
     (snd (ws_handler example_env [Message example_invalid_text, Eof] example_world))) = []"
proof -
  let ?run = "ws_handler example_env [Message example_invalid_text, Eof] example_world"
  have left: "fst ?run = Left" and empty: "connections (connection_manager (snd ?run)) = []"
    by (simp_all add: run_defs)
  from left have "?run = (Left, snd ?run)"
    by (simp add: prod_eq_iff)
  from handler_cleanup_once [OF this] left empty show ?thesis
    by (simp add: example_world_def)
qed

text \<open>
  C3 (as amended).  \<^verbatim>\<open>add_connection\<close> never fails: it always stores a fresh entry
  (count 0, the two clock readings) under the id, replacing the entry an id already
  present had.  The counterexample registers \<open>c1\<close> a second time.
\<close>

theorem add_connection_always_inserts:
  "fst (add_connection E w connection_id s) = Inr () \<and>
   map_of (connections (connection_manager (snd (add_connection E w connection_id s)))) =
     (map_of (connections (connection_manager s)))
       (connection_id \<mapsto>
          \<lparr>ws = w, connected_at = time_at E (clock_reads s),
           last_ping = time_at E (Suc (clock_reads s)), message_count = 0\<rparr>)"
  by (simp add: add_connection_eq update_conv')

theorem add_connection_duplicate_counterexample:
  "map_of (connections (connection_manager example_registered)) ''c1'' =
     Some \<lparr>ws = 4242, connected_at = 100, last_ping = 105, message_count = 2\<rparr> \<and>
   fst (add_connection example_env 7 ''c1'' example_registered) = Inr () \<and>
   connections (connection_manager (snd (add_connection example_env 7 ''c1'' example_registered))) =
     [(''c1'', \<lparr>ws = 7, connected_at = 108, last_ping = 109, message_count = 0\<rparr>)]"
  by (simp add: add_connection_eq example_registered_def example_env_def)

text \<open>
  C4.  When the body of the handler has consumed some of the results of
  \<^verbatim>\<open>ws.receive()\<close> (it is waiting for the next one, or it has left the loop), the entry
  of its connection holds as \<open>message_count\<close> the number of texts among the results
  consumed, whether or not they decoded.
\<close>

theorem message_count_equals_received:
  assumes "ws_handler_try E cid received s = (r, s')"
  shows "\<exists>p rest info. r = Inr (p, rest) \<and> length rest \<le> length received \<and>
           map_of (connections (connection_manager s')) cid = Some info \<and>
           message_count info =
             int (received_messages (take (length received - length rest) received))"
proof -
  from register_result [of E cid s] obtain sent s1 where
    reg: "ws_handler_register E cid s = (Inr sent, s1)"
    and cm: "connection_manager s1 = (connection_manager s)\<lparr>connections :=
       AList.update cid
         \<lparr>ws = ws_ident (sock s), connected_at = time_at E (clock_reads s),
          last_ping = time_at E (Suc (clock_reads s)), message_count = 0\<rparr>
         (connections (connection_manager s))\<rparr>" by blast
  from cm have i1: "map_of (connections (connection_manager s1)) cid =
      Some \<lparr>ws = ws_ident (sock s), connected_at = time_at E (clock_reads s),
          last_ping = time_at E (Suc (clock_reads s)), message_count = 0\<rparr>"
    by (simp add: update_conv')
  show ?thesis
  proof (cases sent)
    case False
    with assms reg have "r = Inr (Left, received) \<and> s' = s1"
      by (auto simp add: ws_handler_try_def py_bind_def py_return_def)
    with i1 show ?thesis by (simp add: received_messages_def)
  next
    case True
    obtain p rest s2 where l: "ws_handler_loop E cid received s1 = ((p, rest), s2)"
      by (cases "ws_handler_loop E cid received s1") auto
    with assms reg True have "r = Inr (p, rest) \<and> s' = s2"
      by (auto simp add: ws_handler_try_def py_bind_def)
    with loop_count [OF i1 l] show ?thesis by auto
  qed
qed

theorem message_count_equals_received_witness:
  "fst (ws_handler_try example_env ''c1''
          [Message example_invalid_text, Message example_heartbeat_text] example_world) =
     Inr (Waiting, []) \<and>
   (\<exists>info. map_of (connections (connection_manager (snd (ws_handler_try example_env ''c1''
          [Message example_invalid_text, Message example_heartbeat_text] example_world)))) ''c1'' =
        Some info \<and> message_count info = 2)"
proof -
  let ?evs = "[Message example_invalid_text, Message example_heartbeat_text]"
  let ?run = "ws_handler_try example_env ''c1'' ?evs example_world"
  have w: "fst ?run = Inr (Waiting, [])"
    by (simp add: run_defs)
  have "?run = (fst ?run, snd ?run)" by simp
  from message_count_equals_received [OF this] w show ?thesis
    by (auto simp add: received_messages_def is_message_def)
qed



text \<open>
  C6.  A decoded message of type \<^verbatim>\<open>ping\<close>, on a connection whose entry is in the
  registry, is answered by a reply of type \<^verbatim>\<open>pong\<close> whose \<open>original_timestamp\<close> is the
  request's \<open>timestamp\<close> (\<^verbatim>\<open>None\<close> when there is none) and whose
  \<open>server_connection_time\<close> is the clock's reading minus the entry's \<open>connected_at\<close>;
  that reply is what the handler then sends.
\<close>

theorem ping_reply:
  assumes "json_loads E raw = Inr (PDict kvs)"
      and "map_of kvs ''type'' = Some (PStr ''ping'')"
      and "map_of (connections (connection_manager u)) cid = Some info"
  shows "\<exists>resp u' sent s'.
     ws_handler_dispatch E cid (PDict kvs) u = (Inr resp, u') \<and>
     dict_get resp ''type'' PNone = Inr (PStr ''pong'') \<and>
     dict_get resp ''timestamp'' PNone = Inr (PInt (py_int (time_at E (clock_reads u)))) \<and>
     dict_get resp ''original_timestamp'' PNone =
       Inr (case map_of kvs ''timestamp'' of Some T \<Rightarrow> T | None \<Rightarrow> PNone) \<and>
     dict_get resp ''server_connection_time'' PNone =
       Inr (PFloat (time_at E (Suc (clock_reads u)) - connected_at info)) \<and>
     safe_send E resp cid u' = (Inr sent, s') \<and>
     ws_handler_message E cid raw u = (Inr (\<not> sent), s')"
proof -
  let ?resp = "PDict
         [(''type'', PStr ''pong''),
          (''timestamp'', PInt (py_int (time_at E (clock_reads u)))),
          (''original_timestamp'', case map_of kvs ''timestamp'' of Some T \<Rightarrow> T | None \<Rightarrow> PNone),
          (''server_connection_time'', PFloat (time_at E (Suc (clock_reads u)) - connected_at info))]"
  let ?u' = "u\<lparr>clock_reads := Suc (Suc (clock_reads u))\<rparr>"
  from assms(2,3) have d: "ws_handler_dispatch E cid (PDict kvs) u = (Inr ?resp, ?u')"
    by (simp add: dispatch_defs)
  from safe_send_returns obtain sent s' where snd: "safe_send E ?resp cid ?u' = (Inr sent, s')"
    by blast
  have tr: "truthy ?resp" by (simp add: truthy_def)
  from message_after_dispatch [OF assms(1) d tr snd]
  have m: "ws_handler_message E cid raw u = (Inr (\<not> sent), s')" .
  have "dict_get ?resp ''type'' PNone = Inr (PStr ''pong'')"
    and "dict_get ?resp ''timestamp'' PNone = Inr (PInt (py_int (time_at E (clock_reads u))))"
    and "dict_get ?resp ''original_timestamp'' PNone =
       Inr (case map_of kvs ''timestamp'' of Some T \<Rightarrow> T | None \<Rightarrow> PNone)"
    and "dict_get ?resp ''server_connection_time'' PNone =
       Inr (PFloat (time_at E (Suc (clock_reads u)) - connected_at info))"
    by (simp_all add: dict_get_def)
  with d snd m show ?thesis by blast
qed

theorem ping_reply_witness:
  "json_loads example_env example_ping_text =
     Inr (PDict [(''type'', PStr ''ping''), (''timestamp'', PInt 7)]) \<and>
   fst (ws_handler_dispatch example_env ''c1''
          (PDict [(''type'', PStr ''ping''), (''timestamp'', PInt 7)]) example_registered) =
     Inr (PDict [(''type'', PStr ''pong''), (''timestamp'', PInt 108),
                 (''original_timestamp'', PInt 7), (''server_connection_time'', PFloat 9)])"
proof -
  let ?kvs = "[(''type'', PStr ''ping''), (''timestamp'', PInt 7)]"
  have h: "json_loads example_env example_ping_text = Inr (PDict ?kvs)"
    by (simp add: run_defs)
  have t: "map_of ?kvs ''type'' = Some (PStr ''ping'')" by simp
  have r: "map_of (connections (connection_manager example_registered)) ''c1'' =
      Some \<lparr>ws = 4242, connected_at = 100, last_ping = 105, message_count = 2\<rparr>"
    by (simp add: example_registered_def)
  from ping_reply [OF h t r] obtain resp u' where
    d: "ws_handler_dispatch example_env ''c1'' (PDict ?kvs) example_registered = (Inr resp, u')"
    by blast
  then have "resp = PDict [(''type'', PStr ''pong''), (''timestamp'', PInt 108),
                 (''original_timestamp'', PInt 7), (''server_connection_time'', PFloat 9)]"
    by (simp add: run_defs)
  with d h show ?thesis by simp
qed

text \<open>
  C7.  A decoded message of type \<^verbatim>\<open>test\<close>, on a connection whose entry is in the
  registry, is answered by a reply of type \<^verbatim>\<open>test_response\<close> whose \<open>echo_data\<close> is the
  request's \<open>data\<close> (the empty string when there is none) and whose
  \<open>connection_stats.messages_received\<close> is the entry's count with this message
  counted.  In particular it is 1 when the message is the first after registration
  and welcome.
\<close>

theorem test_reply:
  assumes "json_loads E raw = Inr (PDict kvs)"
      and "map_of kvs ''type'' = Some (PStr ''test'')"
      and "map_of (connections (connection_manager s)) cid = Some info"
  shows "(\<exists>resp stats u' sent s'.
     ws_handler_dispatch E cid (PDict kvs) (update_stats E cid s) = (Inr resp, u') \<and>
     dict_get resp ''type'' PNone = Inr (PStr ''test_response'') \<and>
     dict_get resp ''echo_data'' PNone =
       Inr (case map_of kvs ''data'' of Some d \<Rightarrow> d | None \<Rightarrow> PStr []) \<and>
     dict_get resp ''connection_stats'' PNone = Inr stats \<and>
     dict_get stats ''messages_received'' PNone = Inr (PInt (message_count info + 1)) \<and>
     safe_send E resp cid u' = (Inr sent, s') \<and>
     ws_handler_loop E cid (Message raw # rest) s =
       (if sent then ws_handler_loop E cid rest s' else ((Left, rest), s'))) \<and>
   (\<exists>resp stats u'.
     ws_handler_dispatch E cid (PDict kvs)
       (update_stats E cid (snd (ws_handler_register E cid s0))) = (Inr resp, u') \<and>
     dict_get resp ''type'' PNone = Inr (PStr ''test_response'') \<and>
     dict_get resp ''connection_stats'' PNone = Inr stats \<and>
     dict_get stats ''messages_received'' PNone = Inr (PInt 1))"
proof -
  from register_result [of E cid s0] obtain w sr where
    reg: "ws_handler_register E cid s0 = (Inr w, sr)"
    and cm: "connection_manager sr = (connection_manager s0)\<lparr>connections :=
       AList.update cid
         \<lparr>ws = ws_ident (sock s0), connected_at = time_at E (clock_reads s0),
          last_ping = time_at E (Suc (clock_reads s0)), message_count = 0\<rparr>
         (connections (connection_manager s0))\<rparr>" by blast
  from cm have i0: "map_of (connections (connection_manager sr)) cid =
      Some \<lparr>ws = ws_ident (sock s0), connected_at = time_at E (clock_reads s0),
          last_ping = time_at E (Suc (clock_reads s0)), message_count = 0\<rparr>"
    by (simp add: update_conv')
  from test_reply_general [OF assms(1,2) i0, of rest] reg
  have "\<exists>resp stats u'.
     ws_handler_dispatch E cid (PDict kvs)
       (update_stats E cid (snd (ws_handler_register E cid s0))) = (Inr resp, u') \<and>
     dict_get resp ''type'' PNone = Inr (PStr ''test_response'') \<and>
     dict_get resp ''connection_stats'' PNone = Inr stats \<and>
     dict_get stats ''messages_received'' PNone = Inr (PInt 1)"
    by auto
  with test_reply_general [OF assms, of rest] show ?thesis by blast
qed

theorem test_reply_witness:
  "json_loads example_env example_test_text =
     Inr (PDict [(''type'', PStr ''test''), (''data'', PStr ''abc'')]) \<and>
   fst (ws_handler_dispatch example_env ''c1''
          (PDict [(''type'', PStr ''test''), (''data'', PStr ''abc'')])
          (update_stats example_env ''c1''
             (snd (ws_handler_register example_env ''c1'' example_world)))) =
     Inr (PDict [(''type'', PStr ''test_response''), (''message'', PStr test_text),
                 (''echo_data'', PStr ''abc''), (''server_time'', PInt 104),
                 (''connection_stats'',
                    PDict [(''id'', PStr ''c1''), (''messages_received'', PInt 1),
                           (''uptime'', PFloat 5)])])"
proof -
  let ?kvs = "[(''type'', PStr ''test''), (''data'', PStr ''abc'')]"
  let ?s = "snd (ws_handler_register example_env ''c1'' example_world)"
  have h: "json_loads example_env example_test_text = Inr (PDict ?kvs)"
    by (simp add: run_defs)
  have t: "map_of ?kvs ''type'' = Some (PStr ''test'')" by simp
  have r: "map_of (connections (connection_manager ?s)) ''c1'' =
      Some \<lparr>ws = 4242, connected_at = 100, last_ping = 101, message_count = 0\<rparr>"
    by (simp add: run_defs)
  from test_reply [OF h t r, of "[]" example_world] obtain resp u' where
    d: "ws_handler_dispatch example_env ''c1'' (PDict ?kvs) (update_stats example_env ''c1'' ?s) =
          (Inr resp, u')"
    by blast
  then have "resp = PDict [(''type'', PStr ''test_response''), (''message'', PStr test_text),
                 (''echo_data'', PStr ''abc''), (''server_time'', PInt 104),
                 (''connection_stats'',
                    PDict [(''id'', PStr ''c1''), (''messages_received'', PInt 1),
                           (''uptime'', PFloat 5)])]"
    by (simp add: run_defs)
  with d h show ?thesis by simp
qed


text \<open>
  C9.  A text that decodes to a JSON value other than an object gets no typed reply and
  no echo: reading its \<open>type\<close> raises \<^verbatim>\<open>AttributeError\<close>, which is caught, and the one
  reply attempted is the error reply with \<open>message\<close> \<^verbatim>\<open>Server processing error\<close>.  If it
  is sent the loop goes on; if not, the loop is left.
\<close>

theorem non_object_reply:
  assumes "json_loads E raw = Inr v" and "\<forall>kvs. v \<noteq> PDict kvs"
  shows "ws_handler_dispatch E cid v (update_stats E cid s) =
           (Inl (AttributeError ''get''), update_stats E cid s) \<and>
     (\<exists>sent s'.
        safe_send E (processing_error_response (time_at E (clock_reads (update_stats E cid s)))) cid
          (snd (time_time E (update_stats E cid s))) = (Inr sent, s') \<and>
        dict_get (processing_error_response t) ''message'' PNone =
          Inr (PStr ''Server processing error'') \<and>
        ws_handler_message E cid raw (update_stats E cid s) = (Inr (\<not> sent), s') \<and>
        ws_handler_loop E cid (Message raw # rest) s =
          (if sent then ws_handler_loop E cid rest s' else ((Left, rest), s')))"
proof -
  let ?u = "update_stats E cid s"
  from assms(2) have g: "dict_get v ''type'' (PStr ''unknown'') = Inl (AttributeError ''get'')"
    by (cases v) (simp_all add: dict_get_def)
  then have d: "ws_handler_dispatch E cid v ?u = (Inl (AttributeError ''get''), ?u)"
    by (simp add: ws_handler_dispatch_def py_bind_def py_lift_def)
  from safe_send_returns obtain sent s' where
    snd: "safe_send E (processing_error_response (time_at E (clock_reads ?u))) cid
        (snd (time_time E ?u)) = (Inr sent, s')" by blast
  from message_after_raise [OF assms(1) d _ snd]
  have m: "ws_handler_message E cid raw ?u = (Inr (\<not> sent), s')" by simp
  have "dict_get (processing_error_response t) ''message'' PNone =
          Inr (PStr ''Server processing error'')"
    by (simp add: dict_get_def processing_error_response_def)
  with d snd m loop_step [OF m] show ?thesis by blast
qed

theorem non_object_reply_witness:
  "json_loads example_env example_list_text = Inr (PList [PInt 1]) \<and>
   (\<forall>kvs. PList [PInt 1] \<noteq> PDict kvs) \<and>
   fst (ws_handler_dispatch example_env ''c1'' (PList [PInt 1])
          (update_stats example_env ''c1'' example_registered)) = Inl (AttributeError ''get'') \<and>
   fst (ws_handler_loop example_env ''c1''
          [Message example_list_text, Message example_heartbeat_text] example_registered) =
     (Waiting, []) \<and>
   send_calls (sock (snd (ws_handler_loop example_env ''c1''
          [Message example_list_text, Message example_heartbeat_text] example_registered))) =
     [(''error'', True), (''heartbeat_ack'', True)]"
proof -
  have h: "json_loads example_env example_list_text = Inr (PList [PInt 1])"
    by (simp add: run_defs)
  have n: "\<forall>kvs. PList [PInt 1] \<noteq> PDict kvs" by simp
  from non_object_reply [OF h n, of "''c1''" example_registered 0 "[]"]
  have "fst (ws_handler_dispatch example_env ''c1'' (PList [PInt 1])
          (update_stats example_env ''c1'' example_registered)) = Inl (AttributeError ''get'')"
    by simp
  with h show ?thesis by (simp add: run_defs)
qed

text \<open>
  C10 (as amended).  While the connection's id is absent from the registry, a decoded
  message of type \<^verbatim>\<open>ping\<close>, \<^verbatim>\<open>test\<close> or \<^verbatim>\<open>heartbeat\<close> gets no typed reply: the registry
  lookup raises \<^verbatim>\<open>KeyError\<close>, which is caught, and the reply attempted is the error
  reply \<^verbatim>\<open>Server processing error\<close>.  A message of type \<^verbatim>\<open>audio_stream\<close> still gets its
  \<^verbatim>\<open>audio_received\<close> reply (or raises \<^verbatim>\<open>TypeError\<close> when \<^verbatim>\<open>len\<close> of its data is
  undefined), and a message of any remaining type still gets its \<^verbatim>\<open>echo\<close> reply.  The
  counterexample is an \<^verbatim>\<open>audio_stream\<close> message, whose reply is not an echo.
\<close>

theorem absent_record_reply:
  assumes "json_loads E raw = Inr (PDict kvs)"
      and "dict_get (PDict kvs) ''type'' (PStr ''unknown'') = Inr msg_type"
      and "map_of (connections (connection_manager s)) cid = None"
  shows "update_stats E cid s = s \<and>
    (if msg_type \<in> {PStr ''ping'', PStr ''test'', PStr ''heartbeat''} then
       (\<exists>u sent s'.
          ws_handler_dispatch E cid (PDict kvs) s = (Inl (KeyError cid), u) \<and>
          safe_send E (processing_error_response (time_at E (clock_reads u))) cid
            (snd (time_time E u)) = (Inr sent, s') \<and>
          ws_handler_message E cid raw s = (Inr (\<not> sent), s') \<and>
          ws_handler_loop E cid (Message raw # rest) s =
            (if sent then ws_handler_loop E cid rest s' else ((Left, rest), s')))
     else if msg_type = PStr ''audio_stream'' then
       (case py_len (case map_of kvs ''data'' of Some d \<Rightarrow> d | None \<Rightarrow> PStr []) of
          Inr n \<Rightarrow>
            ws_handler_dispatch E cid (PDict kvs) s =
              (Inr (PDict
                 [(''type'', PStr ''audio_received''),
                  (''message'', PStr (audio_text n)),
                  (''size'', PInt n),
                  (''timestamp'', PInt (py_int (time_at E (clock_reads s))))]),
               snd (time_time E s))
        | Inl e \<Rightarrow> ws_handler_dispatch E cid (PDict kvs) s = (Inl e, s))
     else
       ws_handler_dispatch E cid (PDict kvs) s =
         (Inr (PDict
            [(''type'', PStr ''echo''),
             (''original_type'', msg_type),
             (''message'', PStr (echo_text E msg_type)),
             (''original_message'', PDict kvs),
             (''timestamp'', PInt (py_int (time_at E (clock_reads s))))]),
          snd (time_time E s)))"
proof -
  from assms(3) have us: "update_stats E cid s = s"
    by (simp add: update_stats_def Let_def)
  show ?thesis
  proof (cases "msg_type \<in> {PStr ''ping'', PStr ''test'', PStr ''heartbeat''}")
    case True
    with assms(2,3) have "\<exists>u. ws_handler_dispatch E cid (PDict kvs) s = (Inl (KeyError cid), u)"
      by (auto simp add: dispatch_defs)
    then obtain u where d: "ws_handler_dispatch E cid (PDict kvs) s = (Inl (KeyError cid), u)" ..
    from safe_send_returns obtain sent s' where
      snd: "safe_send E (processing_error_response (time_at E (clock_reads u))) cid
            (snd (time_time E u)) = (Inr sent, s')" by blast
    from message_after_raise [OF assms(1) d _ snd]
    have m: "ws_handler_message E cid raw s = (Inr (\<not> sent), s')" by simp
    with us have "ws_handler_message E cid raw (update_stats E cid s) = (Inr (\<not> sent), s')"
      by simp
    from loop_step [OF this] d snd m True us show ?thesis by auto
  next
    case False
    with assms(2) us show ?thesis
      by (auto simp add: dispatch_defs split: sum.splits)
  qed
qed

theorem absent_record_reply_witness:
  "map_of (connections (connection_manager example_world)) ''c1'' = None \<and>
   json_loads example_env example_heartbeat_text = Inr (PDict [(''type'', PStr ''heartbeat'')]) \<and>
   fst (ws_handler_dispatch example_env ''c1'' (PDict [(''type'', PStr ''heartbeat'')])
          example_world) = Inl (KeyError ''c1'') \<and>
   fst (ws_handler_message example_env ''c1'' example_heartbeat_text example_world) = Inr False \<and>
   send_calls (sock (snd (ws_handler_message example_env ''c1'' example_heartbeat_text
          example_world))) = [(''error'', True)]"
proof -
  let ?kvs = "[(''type'', PStr ''heartbeat'')]"
  have a: "map_of (connections (connection_manager example_world)) ''c1'' = None"
    by (simp add: example_world_def)
  have h: "json_loads example_env example_heartbeat_text = Inr (PDict ?kvs)"
    by (simp add: run_defs)
  have t: "dict_get (PDict ?kvs) ''type'' (PStr ''unknown'') = Inr (PStr ''heartbeat'')"
    by (simp add: dict_get_def)
  from absent_record_reply [OF h t a, of "[]"]
  have "fst (ws_handler_dispatch example_env ''c1'' (PDict ?kvs) example_world) =
      Inl (KeyError ''c1'')"
    by auto
  with a h show ?thesis by (simp add: run_defs)
qed

theorem absent_record_audio_counterexample:
  "map_of (connections (connection_manager example_world)) ''c1'' = None \<and>
   json_loads example_env example_audio_text = Inr (PDict [(''type'', PStr ''audio_stream'')]) \<and>
   fst (ws_handler_dispatch example_env ''c1'' (PDict [(''type'', PStr ''audio_stream'')])
          example_world) =
     Inr (PDict [(''type'', PStr ''audio_received''), (''message'', PStr (audio_text 0)),
                 (''size'', PInt 0), (''timestamp'', PInt 100)]) \<and>
   fst (ws_handler_message example_env ''c1'' example_audio_text example_world) = Inr False \<and>
   send_calls (sock (snd (ws_handler_message example_env ''c1'' example_audio_text
          example_world))) = [(''audio_received'', True)]"
  by (simp add: run_defs)

end
